theory Spec2Isabelle
  imports Complex_Main "HOL-Library.Sublist"
begin

section \<open>Values, exceptions and effects\<close>

text \<open>
  The payment API of \<^verbatim>\<open>src/app.py\<close> is a Flask application whose views call the
  billing provider's SDK. The views are modelled as functions of the request, of the
  process state (what was logged, which handlers ran, which provider calls were made)
  and of the things the file does not contain: the provider's SDK, the environment
  variables and the interpreter's rendering of values.

  Decoded JSON, as \<^verbatim>\<open>request.get_json()\<close> and the SDK return it. A JSON object is an
  association list read with \<^const>\<open>map_of\<close>.
\<close>

datatype json =
    JNull
  | JBool bool
  | JInt int
  | JFloat real
  | JStr string
  | JArr "json list"
  | JObj "(string \<times> json) list"

text \<open>
  The exceptions the views can meet, one constructor per class an \<^verbatim>\<open>except\<close> clause
  tells apart. Every constructor carries \<^verbatim>\<open>str(e)\<close>, except \<open>KeyError\<close>, which carries
  the key; \<open>CardError\<close> also carries \<^verbatim>\<open>e.user_message\<close>. \<open>OtherStripeError\<close> is any
  other subclass of \<^verbatim>\<open>stripe.error.StripeError\<close> (or the class itself);
  \<open>OtherException\<close> is any other subclass of \<^verbatim>\<open>Exception\<close>.
\<close>

datatype pyexn =
    CardError string "string option"
  | RateLimitError string
  | InvalidRequestError string
  | AuthenticationError string
  | APIConnectionError string
  | SignatureVerificationError string
  | OtherStripeError string
  | ValueError string
  | KeyError string
  | TypeError string
  | AttributeError string
  | IndexError string
  | OtherException string

definition quoted :: "string \<Rightarrow> string" where
  "quoted s = CHR 0x27 # s @ [CHR 0x27]"

text \<open>
  \<^verbatim>\<open>str(e)\<close>. For a \<open>KeyError\<close> it is the \<^verbatim>\<open>repr\<close> of the key: the key between
  single quotes, for the keys this file subscripts with (plain identifiers).
\<close>

fun str_exn :: "pyexn \<Rightarrow> string" where
  "str_exn (CardError m um) = m"
| "str_exn (RateLimitError m) = m"
| "str_exn (InvalidRequestError m) = m"
| "str_exn (AuthenticationError m) = m"
| "str_exn (APIConnectionError m) = m"
| "str_exn (SignatureVerificationError m) = m"
| "str_exn (OtherStripeError m) = m"
| "str_exn (ValueError m) = m"
| "str_exn (KeyError k) = quoted k"
| "str_exn (TypeError m) = m"
| "str_exn (AttributeError m) = m"
| "str_exn (IndexError m) = m"
| "str_exn (OtherException m) = m"

text \<open>The name of the Python type of a decoded value, as error messages print it.\<close>

fun type_name :: "json \<Rightarrow> string" where
  "type_name JNull = ''NoneType''"
| "type_name (JBool b) = ''bool''"
| "type_name (JInt i) = ''int''"
| "type_name (JFloat r) = ''float''"
| "type_name (JStr s) = ''str''"
| "type_name (JArr xs) = ''list''"
| "type_name (JObj kvs) = ''dict''"

text \<open>
  \<^verbatim>\<open>v[k]\<close> for a string key \<open>k\<close>: a lookup in a dict, \<open>KeyError\<close> when the key is
  missing, \<open>TypeError\<close> on every other value (the message is CPython's).
\<close>

fun subscript :: "json \<Rightarrow> string \<Rightarrow> pyexn + json" where
  "subscript (JObj kvs) k =
     (case map_of kvs k of None \<Rightarrow> Inl (KeyError k) | Some v \<Rightarrow> Inr v)"
| "subscript (JStr s) k = Inl (TypeError ''string indices must be integers'')"
| "subscript (JArr xs) k = Inl (TypeError ''list indices must be integers or slices, not str'')"
| "subscript v k = Inl (TypeError (quoted (type_name v) @ '' object is not subscriptable''))"

text \<open>\<^verbatim>\<open>k in s\<close> for two strings: \<open>k\<close> occurs in \<open>s\<close> as a contiguous run.\<close>

fun is_substring :: "string \<Rightarrow> string \<Rightarrow> bool" where
  "is_substring k [] = (k = [])"
| "is_substring k (c # cs) = (prefix k (c # cs) \<or> is_substring k cs)"

text \<open>
  \<^verbatim>\<open>k in v\<close> for a string \<open>k\<close>: key membership in a dict, the substring test in a
  string, element membership in a list, \<open>TypeError\<close> on \<^verbatim>\<open>None\<close>, booleans and
  numbers.
\<close>

fun py_in :: "string \<Rightarrow> json \<Rightarrow> pyexn + bool" where
  "py_in k (JObj kvs) = Inr (k \<in> set (map fst kvs))"
| "py_in k (JStr s) = Inr (is_substring k s)"
| "py_in k (JArr xs) = Inr (JStr k \<in> set xs)"
| "py_in k v = Inl (TypeError (''argument of type '' @ quoted (type_name v) @ '' is not iterable''))"

text \<open>\<^verbatim>\<open>d.get(k, default)\<close>: only a dict has the method.\<close>

fun py_get :: "json \<Rightarrow> string \<Rightarrow> json \<Rightarrow> pyexn + json" where
  "py_get (JObj kvs) k dflt = Inr (case map_of kvs k of None \<Rightarrow> dflt | Some v \<Rightarrow> v)"
| "py_get v k dflt =
     Inl (AttributeError (quoted (type_name v) @ '' object has no attribute '' @ quoted ''get''))"

text \<open>Truth value of a decoded value, as \<^verbatim>\<open>if not v\<close> tests it.\<close>

fun truthy :: "json \<Rightarrow> bool" where
  "truthy JNull = False"
| "truthy (JBool b) = b"
| "truthy (JInt i) = (i \<noteq> 0)"
| "truthy (JFloat r) = (r \<noteq> 0)"
| "truthy (JStr s) = (s \<noteq> [])"
| "truthy (JArr xs) = (xs \<noteq> [])"
| "truthy (JObj kvs) = (kvs \<noteq> [])"


text \<open>
  What the file uses and does not define. \<open>getenv\<close> is \<^verbatim>\<open>os.getenv\<close>. \<open>repr_value\<close>
  is the interpreter's \<^verbatim>\<open>str()\<close> of a value that is not a string. The others are the
  provider's SDK: \<^verbatim>\<open>stripe.Webhook.construct_event\<close> (payload, signature header,
  secret), \<^verbatim>\<open>stripe.Customer.create\<close>, \<^verbatim>\<open>stripe.Subscription.create\<close> and
  \<^verbatim>\<open>stripe.Subscription.list\<close> (each given its keyword arguments as a JSON object),
  and \<open>getattr\<close>, the attribute read \<^verbatim>\<open>obj.name\<close> on an object the SDK returned.
\<close>

record externals =
  getenv :: "string \<Rightarrow> string option"
  repr_value :: "json \<Rightarrow> string"
  construct_event :: "string \<Rightarrow> string option \<Rightarrow> string \<Rightarrow> pyexn + json"
  Customer_create :: "json \<Rightarrow> pyexn + json"
  Subscription_create :: "json \<Rightarrow> pyexn + json"
  Subscription_list :: "json \<Rightarrow> pyexn + json"
  getattr :: "json \<Rightarrow> string \<Rightarrow> pyexn + json"

text \<open>A value inside an f-string: a string as it is, anything else as the interpreter prints it.\<close>

definition py_str :: "externals \<Rightarrow> json \<Rightarrow> string" where
  "py_str x v = (case v of JStr s \<Rightarrow> s | _ \<Rightarrow> repr_value x v)"

text \<open>The request, as far as the views read it.\<close>

record request =
  get_json :: "pyexn + json"
  get_data :: string
  headers :: "string \<Rightarrow> string option"

datatype log_entry = Info string | Error string

datatype handler =
    Handle_subscription_created
  | Handle_subscription_updated
  | Handle_subscription_deleted
  | Handle_payment_succeeded
  | Handle_payment_failed
  | Handle_trial_will_end

datatype api = Api_Customer_create | Api_Subscription_create | Api_Subscription_list

text \<open>
  The state a view runs in: the lines the logger has written, the handlers that were
  called with their argument, and the provider calls that were made with theirs.
\<close>

record state =
  logged :: "log_entry list"
  calls :: "(handler \<times> json) list"
  provider_calls :: "(api \<times> json) list"

datatype body = Text string | Json json

type_synonym response = "body \<times> nat"

text \<open>A computation in a state that returns a value or raises.\<close>

type_synonym 'a run = "state \<Rightarrow> (pyexn + 'a) \<times> state"

definition ret :: "'a \<Rightarrow> 'a run" where
  "ret v = (\<lambda>s. (Inr v, s))"

definition throw :: "pyexn \<Rightarrow> 'a run" where
  "throw e = (\<lambda>s. (Inl e, s))"

definition lift :: "pyexn + 'a \<Rightarrow> 'a run" where
  "lift r = (\<lambda>s. (r, s))"

definition bindE :: "'a run \<Rightarrow> ('a \<Rightarrow> 'b run) \<Rightarrow> 'b run" where
  "bindE m f = (\<lambda>s. case m s of (Inl e, s') \<Rightarrow> (Inl e, s') | (Inr v, s') \<Rightarrow> f v s')"

definition logger_info :: "string \<Rightarrow> unit run" where
  "logger_info msg = (\<lambda>s. (Inr (), s\<lparr>logged := logged s @ [Info msg]\<rparr>))"

definition logger_error :: "string \<Rightarrow> unit run" where
  "logger_error msg = (\<lambda>s. (Inr (), s\<lparr>logged := logged s @ [Error msg]\<rparr>))"

definition call :: "handler \<Rightarrow> json \<Rightarrow> unit run \<Rightarrow> unit run" where
  "call h arg m = (\<lambda>s. m (s\<lparr>calls := calls s @ [(h, arg)]\<rparr>))"

definition provider :: "api \<Rightarrow> (json \<Rightarrow> pyexn + json) \<Rightarrow> json \<Rightarrow> json run" where
  "provider a f args = (\<lambda>s. (f args, s\<lparr>provider_calls := provider_calls s @ [(a, args)]\<rparr>))"

definition jsonify :: "(string \<times> json) list \<Rightarrow> body" where
  "jsonify kvs = Json (JObj kvs)"

section \<open>The webhook\<close>

definition handle_subscription_created :: "externals \<Rightarrow> json \<Rightarrow> unit run" where
  "handle_subscription_created x subscription =
     bindE (lift (subscript subscription ''id'')) (\<lambda>i.
     logger_info (''Subscription created: '' @ py_str x i))"

definition handle_subscription_updated :: "externals \<Rightarrow> json \<Rightarrow> unit run" where
  "handle_subscription_updated x subscription =
     bindE (lift (subscript subscription ''id'')) (\<lambda>i.
     bindE (lift (subscript subscription ''status'')) (\<lambda>st.
     logger_info (''Subscription updated: '' @ py_str x i @ '' - Status: '' @ py_str x st)))"

definition handle_subscription_deleted :: "externals \<Rightarrow> json \<Rightarrow> unit run" where
  "handle_subscription_deleted x subscription =
     bindE (lift (subscript subscription ''id'')) (\<lambda>i.
     logger_info (''Subscription cancelled: '' @ py_str x i))"

definition handle_payment_succeeded :: "externals \<Rightarrow> json \<Rightarrow> unit run" where
  "handle_payment_succeeded x invoice =
     bindE (lift (subscript invoice ''id'')) (\<lambda>i.
     bindE (lift (subscript invoice ''amount_paid'')) (\<lambda>a.
     logger_info (''Payment succeeded: '' @ py_str x i @ '' - Amount: '' @ py_str x a)))"

definition handle_payment_failed :: "externals \<Rightarrow> json \<Rightarrow> unit run" where
  "handle_payment_failed x invoice =
     bindE (lift (subscript invoice ''id'')) (\<lambda>i.
     bindE (lift (subscript invoice ''customer'')) (\<lambda>c.
     logger_info (''Payment failed: '' @ py_str x i @ '' - Customer: '' @ py_str x c)))"

definition handle_trial_will_end :: "externals \<Rightarrow> json \<Rightarrow> unit run" where
  "handle_trial_will_end x subscription =
     bindE (lift (subscript subscription ''id'')) (\<lambda>i.
     logger_info (''Trial ending soon for subscription: '' @ py_str x i))"

text \<open>The \<^verbatim>\<open>if\<close>/\<^verbatim>\<open>elif\<close> chain inside the second \<^verbatim>\<open>try\<close> of \<^verbatim>\<open>stripe_webhook\<close>.\<close>

definition dispatch :: "externals \<Rightarrow> json \<Rightarrow> json \<Rightarrow> unit run" where
  "dispatch x event_type data_object =
     (if event_type = JStr ''customer.subscription.created'' then
        call Handle_subscription_created data_object (handle_subscription_created x data_object)
      else if event_type = JStr ''customer.subscription.updated'' then
        call Handle_subscription_updated data_object (handle_subscription_updated x data_object)
      else if event_type = JStr ''customer.subscription.deleted'' then
        call Handle_subscription_deleted data_object (handle_subscription_deleted x data_object)
      else if event_type = JStr ''invoice.payment_succeeded'' then
        call Handle_payment_succeeded data_object (handle_payment_succeeded x data_object)
      else if event_type = JStr ''invoice.payment_failed'' then
        call Handle_payment_failed data_object (handle_payment_failed x data_object)
      else if event_type = JStr ''customer.subscription.trial_will_end'' then
        call Handle_trial_will_end data_object (handle_trial_will_end x data_object)
      else logger_info (''Unhandled event type: '' @ py_str x event_type))"

text \<open>
  Everything of \<^verbatim>\<open>stripe_webhook\<close> after \<^verbatim>\<open>construct_event\<close> has returned an event.
  The two subscripts are outside any \<^verbatim>\<open>try\<close>: what they raise leaves the view.
\<close>

definition handle_event :: "externals \<Rightarrow> json \<Rightarrow> response run" where
  "handle_event x event =
     bindE (lift (subscript event ''type'')) (\<lambda>event_type.
     bindE (lift (subscript event ''data'')) (\<lambda>d.
     bindE (lift (subscript d ''object'')) (\<lambda>data_object.
     bindE (logger_info (''Received webhook event: '' @ py_str x event_type)) (\<lambda>_.
     (\<lambda>s. case dispatch x event_type data_object s of
            (Inl e, s') \<Rightarrow>
              bindE (logger_error (''Error handling webhook '' @ py_str x event_type @ '': ''
                                     @ str_exn e)) (\<lambda>_.
              ret (Text (''Error handling webhook: '' @ str_exn e), 500)) s'
          | (Inr u, s') \<Rightarrow> ret (jsonify [(''status'', JStr ''success'')], 200) s')))))"

text \<open>
  The view \<^verbatim>\<open>stripe_webhook\<close>. \<open>Inl e\<close> is an exception that leaves the view.
  \<^verbatim>\<open>if not endpoint_secret\<close> holds of \<^verbatim>\<open>None\<close> and of the empty string.
\<close>

definition stripe_webhook :: "externals \<Rightarrow> request \<Rightarrow> response run" where
  "stripe_webhook x req =
     (let payload = get_data req;
          sig_header = headers req ''Stripe-Signature'';
          endpoint_secret = getenv x ''STRIPE_WEBHOOK_SECRET''
      in if endpoint_secret = None \<or> endpoint_secret = Some [] then
           bindE (logger_error ''Webhook secret not configured'') (\<lambda>_.
           ret (Text ''Webhook secret not configured'', 400))
         else
           (case construct_event x payload sig_header (case endpoint_secret of Some k \<Rightarrow> k | None \<Rightarrow> []) of
              Inl (ValueError m) \<Rightarrow>
                bindE (logger_error (''Invalid payload: '' @ m)) (\<lambda>_.
                ret (Text ''Invalid payload'', 400))
            | Inl (SignatureVerificationError m) \<Rightarrow>
                bindE (logger_error (''Invalid signature: '' @ m)) (\<lambda>_.
                ret (Text ''Invalid signature'', 400))
            | Inl e \<Rightarrow> throw e
            | Inr event \<Rightarrow> handle_event x event))"

section \<open>Creating a subscription\<close>

text \<open>The table \<^verbatim>\<open>PRICE_IDS\<close>: four keys, each with what \<^verbatim>\<open>os.getenv\<close> gave.\<close>

definition PRICE_IDS :: "externals \<Rightarrow> (string \<times> string option) list" where
  "PRICE_IDS x =
     [(''starter_monthly'', getenv x ''STRIPE_STARTER_MONTHLY_PRICE_ID''),
      (''starter_yearly'', getenv x ''STRIPE_STARTER_YEARLY_PRICE_ID''),
      (''professional_monthly'', getenv x ''STRIPE_PROFESSIONAL_MONTHLY_PRICE_ID''),
      (''professional_yearly'', getenv x ''STRIPE_PROFESSIONAL_YEARLY_PRICE_ID'')]"

definition required_fields :: "string list" where
  "required_fields = [''email'', ''name'', ''plan'', ''billing_cycle'', ''payment_method_id'']"

text \<open>
  The loop over \<^verbatim>\<open>required_fields\<close>: the first field with \<^verbatim>\<open>field not in data\<close>, if
  there is one; what the membership test raises ends the loop.
\<close>

fun first_missing :: "json \<Rightarrow> string list \<Rightarrow> pyexn + string option" where
  "first_missing data [] = Inr None"
| "first_missing data (field # others) =
     (case py_in field data of
        Inl e \<Rightarrow> Inl e
      | Inr present \<Rightarrow> if present then first_missing data others else Inr (Some field))"

text \<open>
  The body of the \<^verbatim>\<open>try\<close> of \<^verbatim>\<open>create_subscription\<close>. An expression the source
  evaluates several times (\<^verbatim>\<open>data['plan']\<close>, \<^verbatim>\<open>customer.id\<close>) is evaluated once, where
  it first occurs: evaluating it has no effect, so it gives the same result each time.
\<close>

definition create_subscription_try :: "externals \<Rightarrow> request \<Rightarrow> response run" where
  "create_subscription_try x req =
     bindE (lift (get_json req)) (\<lambda>data.
     bindE (lift (first_missing data required_fields)) (\<lambda>missing.
     case missing of
       Some field \<Rightarrow> ret (jsonify [(''error'', JStr (''Missing required field: '' @ field))], 400)
     | None \<Rightarrow>
     bindE (lift (subscript data ''plan'')) (\<lambda>plan.
     bindE (lift (subscript data ''billing_cycle'')) (\<lambda>billing_cycle.
     let plan_key = py_str x plan @ ''_'' @ py_str x billing_cycle;
         price_id = (case map_of (PRICE_IDS x) plan_key of None \<Rightarrow> None | Some v \<Rightarrow> v)
     in case price_id of
       None \<Rightarrow> ret (jsonify [(''error'', JStr (''Invalid plan or billing cycle: '' @ plan_key))], 400)
     | Some price \<Rightarrow>
     if price = [] then
       ret (jsonify [(''error'', JStr (''Invalid plan or billing cycle: '' @ plan_key))], 400)
     else
     bindE (lift (subscript data ''email'')) (\<lambda>email.
     bindE (lift (subscript data ''name'')) (\<lambda>name.
     bindE (lift (subscript data ''payment_method_id'')) (\<lambda>payment_method_id.
     bindE (lift (py_get data ''company'' (JStr []))) (\<lambda>company.
     bindE (provider Api_Customer_create (Customer_create x)
              (JObj [(''email'', email),
                     (''name'', name),
                     (''payment_method'', payment_method_id),
                     (''invoice_settings'', JObj [(''default_payment_method'', payment_method_id)]),
                     (''metadata'', JObj [(''plan'', plan),
                                          (''billing_cycle'', billing_cycle),
                                          (''source'', JStr ''reviewmaestro_saas''),
                                          (''company'', company)])])) (\<lambda>customer.
     bindE (lift (getattr x customer ''id'')) (\<lambda>customer_id.
     bindE (logger_info (''Customer created: '' @ py_str x customer_id @ '' for '' @ py_str x email)) (\<lambda>_.
     bindE (provider Api_Subscription_create (Subscription_create x)
              (JObj [(''customer'', customer_id),
                     (''items'', JArr [JObj [(''price'', JStr price)]]),
                     (''trial_period_days'', JInt 14),
                     (''expand'', JArr [JStr ''latest_invoice.payment_intent'']),
                     (''metadata'', JObj [(''plan'', plan),
                                          (''billing_cycle'', billing_cycle)])])) (\<lambda>subscription.
     bindE (lift (getattr x subscription ''id'')) (\<lambda>subscription_id.
     bindE (logger_info (''Subscription created: '' @ py_str x subscription_id
                           @ '' for customer '' @ py_str x customer_id)) (\<lambda>_.
     bindE (lift (getattr x subscription ''latest_invoice'')) (\<lambda>latest_invoice.
     bindE (lift (getattr x latest_invoice ''payment_intent'')) (\<lambda>payment_intent.
     bindE (if truthy payment_intent then lift (getattr x payment_intent ''client_secret'')
            else ret JNull) (\<lambda>client_secret.
     bindE (lift (getattr x subscription ''trial_end'')) (\<lambda>trial_end.
     bindE (lift (getattr x subscription ''status'')) (\<lambda>status.
     ret (jsonify [(''subscription_id'', subscription_id),
                   (''customer_id'', customer_id),
                   (''client_secret'', client_secret),
                   (''trial_end'', trial_end),
                   (''status'', status)], 200))))))))))))))))))))"

text \<open>
  The \<^verbatim>\<open>except\<close> clauses of \<^verbatim>\<open>create_subscription\<close>, in the order of the source. The
  five named classes are subclasses of \<^verbatim>\<open>StripeError\<close> and of nothing else in the list,
  so each is caught by its own clause; every other \<^verbatim>\<open>StripeError\<close> by the sixth;
  everything else by \<^verbatim>\<open>except Exception\<close>.
\<close>

fun create_subscription_except :: "pyexn \<Rightarrow> response run" where
  "create_subscription_except (CardError m user_message) =
     bindE (logger_error (''Card error: '' @ m)) (\<lambda>_.
     ret (jsonify [(''error'', JStr (''Card error: '' @
            (case user_message of None \<Rightarrow> ''None'' | Some u \<Rightarrow> u)))], 400))"
| "create_subscription_except (RateLimitError m) =
     bindE (logger_error (''Rate limit error: '' @ m)) (\<lambda>_.
     ret (jsonify [(''error'', JStr ''Too many requests. Please try again later.'')], 429))"
| "create_subscription_except (InvalidRequestError m) =
     bindE (logger_error (''Invalid request: '' @ m)) (\<lambda>_.
     ret (jsonify [(''error'', JStr (''Invalid request: '' @ m))], 400))"
| "create_subscription_except (AuthenticationError m) =
     bindE (logger_error (''Authentication error: '' @ m)) (\<lambda>_.
     ret (jsonify [(''error'', JStr ''Authentication failed. Please contact support.'')], 401))"
| "create_subscription_except (APIConnectionError m) =
     bindE (logger_error (''Network error: '' @ m)) (\<lambda>_.
     ret (jsonify [(''error'', JStr ''Network error. Please try again.'')], 503))"
| "create_subscription_except (SignatureVerificationError m) =
     bindE (logger_error (''Stripe error: '' @ m)) (\<lambda>_.
     ret (jsonify [(''error'', JStr (''Payment processing error: '' @ m))], 400))"
| "create_subscription_except (OtherStripeError m) =
     bindE (logger_error (''Stripe error: '' @ m)) (\<lambda>_.
     ret (jsonify [(''error'', JStr (''Payment processing error: '' @ m))], 400))"
| "create_subscription_except e =
     bindE (logger_error (''Unexpected error: '' @ str_exn e)) (\<lambda>_.
     ret (jsonify [(''error'', JStr ''An unexpected error occurred. Please try again.'')], 500))"

text \<open>The view \<^verbatim>\<open>create_subscription\<close>.\<close>

definition create_subscription :: "externals \<Rightarrow> request \<Rightarrow> response run" where
  "create_subscription x req =
     (\<lambda>s. case create_subscription_try x req s of
            (Inl e, s') \<Rightarrow> create_subscription_except e s'
          | (Inr r, s') \<Rightarrow> (Inr r, s'))"

section \<open>Subscription status\<close>




section \<open>A concrete setting\<close>

text \<open>
  One setting to run the views in: a process that has logged nothing, an environment
  with the webhook secret and three of the four price identifiers set, and an SDK that
  accepts one signature, decodes three payloads, reads an attribute as a field and
  answers every call.
\<close>

definition empty_state :: state where
  "empty_state = \<lparr>logged = [], calls = [], provider_calls = []\<rparr>"

definition example_getenv :: "string \<Rightarrow> string option" where
  "example_getenv =
     map_of [(''STRIPE_WEBHOOK_SECRET'', ''whsec_test''),
             (''STRIPE_STARTER_MONTHLY_PRICE_ID'', ''price_sm''),
             (''STRIPE_STARTER_YEARLY_PRICE_ID'', ''price_sy''),
             (''STRIPE_PROFESSIONAL_MONTHLY_PRICE_ID'', ''price_pm'')]"

definition payment_failed_event :: json where
  "payment_failed_event =
     JObj [(''type'', JStr ''invoice.payment_failed''),
           (''data'', JObj [(''object'', JObj [(''id'', JStr ''in_1''),
                                               (''customer'', JStr ''cus_1'')])])]"

definition created_event_without_id :: json where
  "created_event_without_id =
     JObj [(''type'', JStr ''customer.subscription.created''),
           (''data'', JObj [(''object'', JObj [])])]"

definition refunded_event :: json where
  "refunded_event =
     JObj [(''type'', JStr ''charge.refunded''),
           (''data'', JObj [(''object'', JObj [(''id'', JStr ''ch_1'')])])]"

definition example_decode :: "string \<Rightarrow> pyexn + json" where
  "example_decode payload =
     (if payload = ''payment_failed'' then Inr payment_failed_event
      else if payload = ''created_without_id'' then Inr created_event_without_id
      else if payload = ''refunded'' then Inr refunded_event
      else Inl (ValueError ''Expecting value: line 1 column 1 (char 0)''))"

definition example_construct_event :: "string \<Rightarrow> string option \<Rightarrow> string \<Rightarrow> pyexn + json" where
  "example_construct_event payload sig_header secret =
     (if sig_header = Some (''v1='' @ secret) then example_decode payload
      else Inl (SignatureVerificationError ''No signatures found matching the expected signature for payload''))"

definition field_read :: "json \<Rightarrow> string \<Rightarrow> pyexn + json" where
  "field_read v k =
     (case v of
        JObj kvs \<Rightarrow> (case map_of kvs k of None \<Rightarrow> Inl (AttributeError k) | Some w \<Rightarrow> Inr w)
      | _ \<Rightarrow> Inl (AttributeError k))"

definition example_subscription :: json where
  "example_subscription =
     JObj [(''id'', JStr ''sub_1''),
           (''status'', JStr ''trialing''),
           (''current_period_start'', JInt 1700000000),
           (''current_period_end'', JInt 1701209600),
           (''trial_end'', JInt 1701209600),
           (''cancel_at_period_end'', JBool False),
           (''latest_invoice'', JObj [(''payment_intent'', JNull)]),
           (''items'', JObj [(''data'', JArr [])])]"

definition example_externals :: externals where
  "example_externals =
     \<lparr>getenv = example_getenv,
      repr_value = (\<lambda>v. ''?''),
      construct_event = example_construct_event,
      Customer_create = (\<lambda>args. Inr (JObj [(''id'', JStr ''cus_1'')])),
      Subscription_create = (\<lambda>args. Inr example_subscription),
      Subscription_list = (\<lambda>args. Inr (JObj [(''data'', JArr [example_subscription])])),
      getattr = field_read\<rparr>"

definition webhook_request :: "string \<Rightarrow> string option \<Rightarrow> request" where
  "webhook_request payload sig_header =
     \<lparr>get_json = Inl (OtherException ''415 Unsupported Media Type''),
      get_data = payload,
      headers = (\<lambda>h. if h = ''Stripe-Signature'' then sig_header else None)\<rparr>"

definition json_request :: "pyexn + json \<Rightarrow> request" where
  "json_request b = \<lparr>get_json = b, get_data = [], headers = (\<lambda>h. None)\<rparr>"

definition signup_body :: "string \<Rightarrow> string \<Rightarrow> json" where
  "signup_body plan billing_cycle =
     JObj [(''email'', JStr ''ann@example.com''),
           (''name'', JStr ''Ann''),
           (''plan'', JStr plan),
           (''billing_cycle'', JStr billing_cycle),
           (''payment_method_id'', JStr ''pm_1'')]"

definition generic_error :: response where
  "generic_error =
     (Json (JObj [(''error'', JStr ''An unexpected error occurred. Please try again.'')]), 500)"

definition missing_field_error :: "string \<Rightarrow> response" where
  "missing_field_error field =
     (Json (JObj [(''error'', JStr (''Missing required field: '' @ field))]), 400)"

section \<open>Unfolding the model\<close>

lemmas run_defs = bindE_def lift_def ret_def throw_def logger_info_def logger_error_def
  call_def provider_def

lemmas handler_defs = handle_subscription_created_def handle_subscription_updated_def
  handle_subscription_deleted_def handle_payment_succeeded_def handle_payment_failed_def
  handle_trial_will_end_def

lemmas example_defs = example_externals_def example_getenv_def example_construct_event_def
  example_decode_def webhook_request_def json_request_def empty_state_def field_read_def
  payment_failed_event_def created_event_without_id_def refunded_event_def
  example_subscription_def signup_body_def

section \<open>The webhook: handlers and dispatch\<close>


text \<open>Whether a handler raises, and what, depends on its argument only.\<close>

lemma fst_handler:
  "fst (handle_subscription_created x d s) = fst (handle_subscription_created x' d s')"
  "fst (handle_subscription_updated x d s) = fst (handle_subscription_updated x' d s')"
  "fst (handle_subscription_deleted x d s) = fst (handle_subscription_deleted x' d s')"
  "fst (handle_payment_succeeded x d s) = fst (handle_payment_succeeded x' d s')"
  "fst (handle_payment_failed x d s) = fst (handle_payment_failed x' d s')"
  "fst (handle_trial_will_end x d s) = fst (handle_trial_will_end x' d s')"
  by (simp_all add: handler_defs run_defs split: sum.splits)

lemma fst_dispatch: "fst (dispatch x t d s) = fst (dispatch x' t d s')"
  unfolding dispatch_def
  by (simp add: fst_handler [of x d _ x'] call_def logger_info_def)



text \<open>An event that has a type tag and a data object: the view logs it and dispatches.\<close>

lemma handle_event_unfold:
  assumes "subscript event ''type'' = Inr t" and "subscript event ''data'' = Inr dd"
    and "subscript dd ''object'' = Inr d"
  shows "handle_event x event s =
     (case dispatch x t d (s\<lparr>logged := logged s @ [Info (''Received webhook event: '' @ py_str x t)]\<rparr>) of
        (Inl e, s') \<Rightarrow>
          (Inr (Text (''Error handling webhook: '' @ str_exn e), 500),
           s'\<lparr>logged := logged s' @ [Error (''Error handling webhook '' @ py_str x t @ '': '' @ str_exn e)]\<rparr>)
      | (Inr u, s') \<Rightarrow> (Inr (Json (JObj [(''status'', JStr ''success'')]), 200), s'))"
  using assms by (simp add: handle_event_def run_defs jsonify_def split: prod.splits sum.splits)

lemma webhook_event:
  assumes "getenv x ''STRIPE_WEBHOOK_SECRET'' = Some k" and "k \<noteq> []"
    and "construct_event x (get_data req) (headers req ''Stripe-Signature'') k = Inr event"
  shows "stripe_webhook x req s = handle_event x event s"
  using assms by (simp add: stripe_webhook_def)



text \<open>The hypotheses of the webhook theorems, at the example setting.\<close>

lemma example_secret: "getenv example_externals ''STRIPE_WEBHOOK_SECRET'' = Some ''whsec_test''"
  by (simp add: example_defs)

lemma example_secret_nonempty: "''whsec_test'' \<noteq> []"
  by simp

lemma example_construct:
  "construct_event example_externals (get_data (webhook_request p (Some ''v1=whsec_test'')))
     (headers (webhook_request p (Some ''v1=whsec_test'')) ''Stripe-Signature'') ''whsec_test''
   = example_decode p"
  by (simp add: example_externals_def example_construct_event_def webhook_request_def)

lemma example_forged:
  "construct_event example_externals (get_data (webhook_request p (Some ''v1=forged'')))
     (headers (webhook_request p (Some ''v1=forged'')) ''Stripe-Signature'') ''whsec_test''
   = Inl (SignatureVerificationError ''No signatures found matching the expected signature for payload'')"
  by (simp add: example_externals_def example_construct_event_def webhook_request_def)

section \<open>The webhook: claims\<close>

text \<open>
  Claim C1. With a secret configured, when the SDK's \<^verbatim>\<open>construct_event\<close> raises, no
  handler is called; when it raises \<open>ValueError\<close> (the body does not parse) the view
  logs and answers 400 \<^verbatim>\<open>Invalid payload\<close>, when it raises
  \<open>SignatureVerificationError\<close> it logs and answers 400 \<^verbatim>\<open>Invalid signature\<close>, and the
  state changes by the log line only. So an event is dispatched only if
  \<^verbatim>\<open>construct_event\<close> returned it.
\<close>

theorem webhook_rejects_unauthenticated:
  assumes "getenv x ''STRIPE_WEBHOOK_SECRET'' = Some k" and "k \<noteq> []"
    and "construct_event x (get_data req) (headers req ''Stripe-Signature'') k = Inl e"
  shows "calls (snd (stripe_webhook x req s)) = calls s \<and>
         (\<forall>m. e = ValueError m \<longrightarrow>
            stripe_webhook x req s =
              (Inr (Text ''Invalid payload'', 400),
               s\<lparr>logged := logged s @ [Error (''Invalid payload: '' @ m)]\<rparr>)) \<and>
         (\<forall>m. e = SignatureVerificationError m \<longrightarrow>
            stripe_webhook x req s =
              (Inr (Text ''Invalid signature'', 400),
               s\<lparr>logged := logged s @ [Error (''Invalid signature: '' @ m)]\<rparr>))"
  using assms by (cases e) (simp_all add: stripe_webhook_def run_defs)

theorem webhook_rejects_unauthenticated_witness:
  "getenv example_externals ''STRIPE_WEBHOOK_SECRET'' = Some ''whsec_test'' \<and>
   construct_event example_externals (get_data (webhook_request ''payment_failed'' (Some ''v1=forged'')))
     (headers (webhook_request ''payment_failed'' (Some ''v1=forged'')) ''Stripe-Signature'') ''whsec_test''
   = Inl (SignatureVerificationError ''No signatures found matching the expected signature for payload'') \<and>
   stripe_webhook example_externals (webhook_request ''payment_failed'' (Some ''v1=forged'')) empty_state =
     (Inr (Text ''Invalid signature'', 400),
      empty_state\<lparr>logged := [Error (''Invalid signature: '' @
         ''No signatures found matching the expected signature for payload'')]\<rparr>) \<and>
   construct_event example_externals (get_data (webhook_request ''{not json'' (Some ''v1=whsec_test'')))
     (headers (webhook_request ''{not json'' (Some ''v1=whsec_test'')) ''Stripe-Signature'') ''whsec_test''
   = Inl (ValueError ''Expecting value: line 1 column 1 (char 0)'') \<and>
   stripe_webhook example_externals (webhook_request ''{not json'' (Some ''v1=whsec_test'')) empty_state =
     (Inr (Text ''Invalid payload'', 400),
      empty_state\<lparr>logged := [Error (''Invalid payload: '' @
         ''Expecting value: line 1 column 1 (char 0)'')]\<rparr>)"
proof -
  have v: "construct_event example_externals (get_data (webhook_request ''{not json'' (Some ''v1=whsec_test'')))
     (headers (webhook_request ''{not json'' (Some ''v1=whsec_test'')) ''Stripe-Signature'') ''whsec_test''
   = Inl (ValueError ''Expecting value: line 1 column 1 (char 0)'')"
    by (simp add: example_construct example_decode_def)
  show ?thesis
    using webhook_rejects_unauthenticated [OF example_secret example_secret_nonempty example_forged,
        of "''payment_failed''" empty_state]
      webhook_rejects_unauthenticated [OF example_secret example_secret_nonempty v, of empty_state]
      example_secret example_forged [of "''payment_failed''"] v
    by (simp add: empty_state_def)
qed



text \<open>
  Claim C3. When the environment has no webhook secret (the variable is unset or
  empty), the view logs and answers 400 \<^verbatim>\<open>Webhook secret not configured\<close>, whatever
  \<^verbatim>\<open>construct_event\<close> is and whatever the request holds; and this answer differs from
  the answer to any request whose signature does not verify under a configured secret.
\<close>

theorem webhook_secret_not_configured:
  assumes "getenv x ''STRIPE_WEBHOOK_SECRET'' = None \<or> getenv x ''STRIPE_WEBHOOK_SECRET'' = Some []"
  shows "stripe_webhook (x\<lparr>construct_event := ce\<rparr>) req s =
           (Inr (Text ''Webhook secret not configured'', 400),
            s\<lparr>logged := logged s @ [Error ''Webhook secret not configured'']\<rparr>) \<and>
         (\<forall>x' req' s' k m.
            getenv x' ''STRIPE_WEBHOOK_SECRET'' = Some k \<and> k \<noteq> [] \<and>
            construct_event x' (get_data req') (headers req' ''Stripe-Signature'') k
              = Inl (SignatureVerificationError m) \<longrightarrow>
            fst (stripe_webhook x' req' s') \<noteq> fst (stripe_webhook (x\<lparr>construct_event := ce\<rparr>) req s))"
  using assms by (auto simp: stripe_webhook_def run_defs)

theorem webhook_secret_not_configured_witness:
  "getenv (example_externals\<lparr>getenv := (\<lambda>k. None)\<rparr>) ''STRIPE_WEBHOOK_SECRET'' = None \<and>
   stripe_webhook (example_externals\<lparr>getenv := (\<lambda>k. None), construct_event := example_construct_event\<rparr>)
       (webhook_request ''payment_failed'' (Some ''v1=whsec_test'')) empty_state =
     (Inr (Text ''Webhook secret not configured'', 400),
      empty_state\<lparr>logged := [Error ''Webhook secret not configured'']\<rparr>) \<and>
   fst (stripe_webhook example_externals (webhook_request ''payment_failed'' (Some ''v1=forged'')) empty_state)
     = Inr (Text ''Invalid signature'', 400)"
proof -
  let ?x = "example_externals\<lparr>getenv := (\<lambda>k. None)\<rparr>"
  have h: "getenv ?x ''STRIPE_WEBHOOK_SECRET'' = None \<or> getenv ?x ''STRIPE_WEBHOOK_SECRET'' = Some []"
    by simp
  have b: "fst (stripe_webhook example_externals (webhook_request ''payment_failed'' (Some ''v1=forged'')) empty_state)
     = Inr (Text ''Invalid signature'', 400)"
    by (simp add: stripe_webhook_def run_defs example_defs)
  from webhook_secret_not_configured [OF h, of example_construct_event
      "webhook_request ''payment_failed'' (Some ''v1=whsec_test'')" empty_state]
  show ?thesis using b by (simp add: empty_state_def)
qed

text \<open>
  Claim C4, as the code has it. With a secret configured and an event returned by
  \<^verbatim>\<open>construct_event\<close> that has a type tag \<open>t\<close> and a data object \<open>d\<close>: when the
  dispatch raises \<open>e\<close> (a handler raised it), the view does not raise; it logs
  \<^verbatim>\<open>Error handling webhook {t}: {str(e)}\<close> and answers 500 with the message
  \<^verbatim>\<open>Error handling webhook: {str(e)}\<close>. The type tag is in the log line; the message
  of the response holds the text of the exception and not the type tag.
\<close>

theorem webhook_handler_error:
  assumes "getenv x ''STRIPE_WEBHOOK_SECRET'' = Some k" and "k \<noteq> []"
    and "construct_event x (get_data req) (headers req ''Stripe-Signature'') k = Inr event"
    and "subscript event ''type'' = Inr t" and "subscript event ''data'' = Inr dd"
    and "subscript dd ''object'' = Inr d"
    and "fst (dispatch x t d s0) = Inl e"
  shows "fst (stripe_webhook x req s) = Inr (Text (''Error handling webhook: '' @ str_exn e), 500) \<and>
         last (logged (snd (stripe_webhook x req s))) =
           Error (''Error handling webhook '' @ py_str x t @ '': '' @ str_exn e)"
proof -
  let ?s1 = "s\<lparr>logged := logged s @ [Info (''Received webhook event: '' @ py_str x t)]\<rparr>"
  have w: "stripe_webhook x req s = handle_event x event s"
    using assms(1-3) by (rule webhook_event)
  have "fst (dispatch x t d ?s1) = Inl e"
    using assms(7) fst_dispatch [of x t d ?s1 x s0] by simp
  then obtain s' where "dispatch x t d ?s1 = (Inl e, s')"
    by (cases "dispatch x t d ?s1") simp
  then show ?thesis
    unfolding w handle_event_unfold [OF assms(4-6)] by simp
qed

theorem webhook_handler_error_witness:
  "getenv example_externals ''STRIPE_WEBHOOK_SECRET'' = Some ''whsec_test'' \<and>
   construct_event example_externals
     (get_data (webhook_request ''created_without_id'' (Some ''v1=whsec_test'')))
     (headers (webhook_request ''created_without_id'' (Some ''v1=whsec_test'')) ''Stripe-Signature'')
     ''whsec_test''
   = Inr created_event_without_id \<and>
   subscript created_event_without_id ''type'' = Inr (JStr ''customer.subscription.created'') \<and>
   fst (dispatch example_externals (JStr ''customer.subscription.created'') (JObj []) empty_state)
     = Inl (KeyError ''id'') \<and>
   fst (stripe_webhook example_externals
          (webhook_request ''created_without_id'' (Some ''v1=whsec_test'')) empty_state)
     = Inr (Text (''Error handling webhook: '' @ quoted ''id''), 500) \<and>
   last (logged (snd (stripe_webhook example_externals
          (webhook_request ''created_without_id'' (Some ''v1=whsec_test'')) empty_state)))
     = Error (''Error handling webhook customer.subscription.created: '' @ quoted ''id'')"
proof -
  have c: "construct_event example_externals
     (get_data (webhook_request ''created_without_id'' (Some ''v1=whsec_test'')))
     (headers (webhook_request ''created_without_id'' (Some ''v1=whsec_test'')) ''Stripe-Signature'')
     ''whsec_test''
   = Inr created_event_without_id"
    by (simp add: example_construct example_decode_def)
  have t: "subscript created_event_without_id ''type'' = Inr (JStr ''customer.subscription.created'')"
    and dd: "subscript created_event_without_id ''data'' = Inr (JObj [(''object'', JObj [])])"
    and d: "subscript (JObj [(''object'', JObj [])]) ''object'' = Inr (JObj [])"
    by (simp_all add: created_event_without_id_def)
  have e: "fst (dispatch example_externals (JStr ''customer.subscription.created'') (JObj []) empty_state)
     = Inl (KeyError ''id'')"
    by (simp add: dispatch_def handle_subscription_created_def run_defs)
  show ?thesis
    using webhook_handler_error [OF example_secret example_secret_nonempty c t dd d e, of empty_state]
      example_secret c t e
    by (simp add: py_str_def)
qed

text \<open>
  Claim C4, as stated, fails: for a validly signed \<^verbatim>\<open>customer.subscription.created\<close>
  event whose data object has no \<^verbatim>\<open>id\<close>, the handler raises \<^verbatim>\<open>KeyError('id')\<close> and the
  message of the 500 response is \<^verbatim>\<open>Error handling webhook: 'id'\<close>, which is not
  \<^verbatim>\<open>error handling webhook customer.subscription.created\<close> in either capitalisation.
\<close>

theorem webhook_handler_error_counterexample:
  "fst (stripe_webhook example_externals
          (webhook_request ''created_without_id'' (Some ''v1=whsec_test'')) empty_state)
     = Inr (Text (''Error handling webhook: '' @ quoted ''id''), 500) \<and>
   fst (stripe_webhook example_externals
          (webhook_request ''created_without_id'' (Some ''v1=whsec_test'')) empty_state)
     \<noteq> Inr (Text ''error handling webhook customer.subscription.created'', 500) \<and>
   fst (stripe_webhook example_externals
          (webhook_request ''created_without_id'' (Some ''v1=whsec_test'')) empty_state)
     \<noteq> Inr (Text ''Error handling webhook customer.subscription.created'', 500)"
  by (simp add: stripe_webhook_def handle_event_def dispatch_def handle_subscription_created_def
      run_defs example_defs quoted_def)



section \<open>Creating a subscription: the loop and the two early returns\<close>

text \<open>On a JSON object the loop finds the first required field that is not a key.\<close>

lemma first_missing_object:
  "first_missing (JObj kvs) fs =
     Inr (case filter (\<lambda>f. f \<notin> fst ` set kvs) fs of [] \<Rightarrow> None | f # others \<Rightarrow> Some f)"
  by (induction fs) auto

text \<open>On a string it finds the first that is not a substring, on a list the first that is not an element.\<close>

lemma first_missing_string:
  "first_missing (JStr str) fs =
     Inr (case filter (\<lambda>f. \<not> is_substring f str) fs of [] \<Rightarrow> None | f # others \<Rightarrow> Some f)"
  by (induction fs) auto

lemma first_missing_array:
  "first_missing (JArr xs) fs =
     Inr (case filter (\<lambda>f. JStr f \<notin> set xs) fs of [] \<Rightarrow> None | f # others \<Rightarrow> Some f)"
  by (induction fs) auto

lemma try_missing:
  assumes "get_json req = Inr data" and "first_missing data required_fields = Inr (Some field)"
  shows "create_subscription_try x req s =
           (Inr (Json (JObj [(''error'', JStr (''Missing required field: '' @ field))]), 400), s)"
  using assms by (simp add: create_subscription_try_def run_defs jsonify_def)

lemma create_subscription_returns:
  "create_subscription_try x req s = (Inr r, s') \<Longrightarrow> create_subscription x req s = (Inr r, s')"
  by (simp add: create_subscription_def)

lemma create_subscription_raises:
  "create_subscription_try x req s = (Inl e, s') \<Longrightarrow>
   create_subscription x req s = create_subscription_except e s'"
  by (simp add: create_subscription_def)

lemma try_price:
  assumes "get_json req = Inr (JObj kvs)"
    and "set required_fields \<subseteq> fst ` set kvs"
    and "map_of kvs ''plan'' = Some plan" and "map_of kvs ''billing_cycle'' = Some billing_cycle"
    and "\<not> (\<exists>price. price \<noteq> [] \<and>
              map_of (PRICE_IDS x) (py_str x plan @ ''_'' @ py_str x billing_cycle) = Some (Some price))"
  shows "create_subscription_try x req s =
           (Inr (Json (JObj [(''error'', JStr (''Invalid plan or billing cycle: '' @
                   py_str x plan @ ''_'' @ py_str x billing_cycle))]), 400), s)"
proof -
  have "filter (\<lambda>f. f \<notin> fst ` set kvs) required_fields = []"
    using assms(2) by (auto simp: filter_empty_conv)
  then have m: "first_missing (JObj kvs) required_fields = Inr None"
    by (simp add: first_missing_object)
  show ?thesis
    using assms(1,3,4,5) m
    by (auto simp: create_subscription_try_def run_defs jsonify_def Let_def split: option.splits)
qed

section \<open>Creating a subscription: claims\<close>

text \<open>
  Claim C7. When the body of a create-subscription request is a JSON object and a
  required field is not among its keys, the view answers 400 with
  \<^verbatim>\<open>{"error": "Missing required field: <field>"}\<close> for the first such field in the order
  email, name, plan, billing_cycle, payment_method_id; for a body without \<^verbatim>\<open>email\<close> that
  is \<^verbatim>\<open>{"error": "Missing required field: email"}\<close>. The state is as before: no provider
  call was made.
\<close>

theorem create_subscription_missing_field:
  assumes "get_json req = Inr (JObj kvs)"
  shows "(''email'' \<notin> fst ` set kvs \<longrightarrow>
            create_subscription x req s =
              (Inr (Json (JObj [(''error'', JStr ''Missing required field: email'')]), 400), s)) \<and>
         (\<forall>field others.
            filter (\<lambda>f. f \<notin> fst ` set kvs) required_fields = field # others \<longrightarrow>
            create_subscription x req s =
              (Inr (Json (JObj [(''error'', JStr (''Missing required field: '' @ field))]), 400), s))"
proof -
  have g: "create_subscription x req s =
              (Inr (Json (JObj [(''error'', JStr (''Missing required field: '' @ field))]), 400), s)"
    if "filter (\<lambda>f. f \<notin> fst ` set kvs) required_fields = field # others" for field others
  proof -
    have "first_missing (JObj kvs) required_fields = Inr (Some field)"
      by (simp add: first_missing_object that)
    then show ?thesis
      by (rule create_subscription_returns [OF try_missing [OF assms]])
  qed
  have "create_subscription x req s =
              (Inr (Json (JObj [(''error'', JStr ''Missing required field: email'')]), 400), s)"
    if "''email'' \<notin> fst ` set kvs"
    using g [of "''email''"] that by (simp add: required_fields_def)
  then show ?thesis using g by blast
qed

theorem create_subscription_missing_field_witness:
  "get_json (json_request (Inr (JObj [(''name'', JStr ''Ann''), (''plan'', JStr ''starter'')])))
     = Inr (JObj [(''name'', JStr ''Ann''), (''plan'', JStr ''starter'')]) \<and>
   ''email'' \<notin> fst ` set [(''name'', JStr ''Ann''), (''plan'', JStr ''starter'')] \<and>
   create_subscription example_externals
       (json_request (Inr (JObj [(''name'', JStr ''Ann''), (''plan'', JStr ''starter'')]))) empty_state
     = (Inr (Json (JObj [(''error'', JStr ''Missing required field: email'')]), 400), empty_state) \<and>
   filter (\<lambda>f. f \<notin> fst ` set [(''email'', JStr ''a@b.c''), (''name'', JStr ''Ann'')]) required_fields
     = [''plan'', ''billing_cycle'', ''payment_method_id''] \<and>
   create_subscription example_externals
       (json_request (Inr (JObj [(''email'', JStr ''a@b.c''), (''name'', JStr ''Ann'')]))) empty_state
     = (Inr (Json (JObj [(''error'', JStr ''Missing required field: plan'')]), 400), empty_state)"
proof -
  have a: "get_json (json_request (Inr (JObj kvs))) = Inr (JObj kvs)" for kvs
    by (simp add: json_request_def)
  have f: "filter (\<lambda>f. f \<notin> fst ` set [(''email'', JStr ''a@b.c''), (''name'', JStr ''Ann'')]) required_fields
     = [''plan'', ''billing_cycle'', ''payment_method_id'']"
    by (simp add: required_fields_def)
  show ?thesis
    using create_subscription_missing_field [OF a, of "[(''name'', JStr ''Ann''), (''plan'', JStr ''starter'')]"
        example_externals empty_state]
      create_subscription_missing_field [OF a, of "[(''email'', JStr ''a@b.c''), (''name'', JStr ''Ann'')]"
        example_externals empty_state] a f
    by simp
qed

text \<open>
  Claim C8, as the code has it. When the body is a JSON object with the five required
  fields and the key \<^verbatim>\<open>{plan}_{billing_cycle}\<close> has no price identifier in \<^verbatim>\<open>PRICE_IDS\<close>
  (it is not one of the four keys, or its environment variable is unset or empty), the
  view answers 400 with the message \<^verbatim>\<open>Invalid plan or billing cycle: \<close> followed by that
  key. The state is as before: no customer and no subscription was created.
\<close>

theorem create_subscription_invalid_plan:
  assumes "get_json req = Inr (JObj kvs)"
    and "set required_fields \<subseteq> fst ` set kvs"
    and "map_of kvs ''plan'' = Some plan" and "map_of kvs ''billing_cycle'' = Some billing_cycle"
    and "\<not> (\<exists>price. price \<noteq> [] \<and>
              map_of (PRICE_IDS x) (py_str x plan @ ''_'' @ py_str x billing_cycle) = Some (Some price))"
  shows "create_subscription x req s =
           (Inr (Json (JObj [(''error'', JStr (''Invalid plan or billing cycle: '' @
                   py_str x plan @ ''_'' @ py_str x billing_cycle))]), 400), s)"
  by (rule create_subscription_returns [OF try_price [OF assms]])

theorem create_subscription_invalid_plan_witness:
  "get_json (json_request (Inr (signup_body ''professional'' ''yearly'')))
     = Inr (signup_body ''professional'' ''yearly'') \<and>
   map_of (PRICE_IDS example_externals) ''professional_yearly'' = Some None \<and>
   create_subscription example_externals
       (json_request (Inr (signup_body ''professional'' ''yearly''))) empty_state
     = (Inr (Json (JObj [(''error'', JStr ''Invalid plan or billing cycle: professional_yearly'')]), 400),
        empty_state)"
proof -
  let ?kvs = "[(''email'', JStr ''ann@example.com''), (''name'', JStr ''Ann''),
               (''plan'', JStr ''professional''), (''billing_cycle'', JStr ''yearly''),
               (''payment_method_id'', JStr ''pm_1'')]"
  have a: "get_json (json_request (Inr (signup_body ''professional'' ''yearly''))) = Inr (JObj ?kvs)"
    by (simp add: json_request_def signup_body_def)
  have b: "set required_fields \<subseteq> fst ` set ?kvs"
    by (simp add: required_fields_def)
  have c: "map_of ?kvs ''plan'' = Some (JStr ''professional'')"
    and d: "map_of ?kvs ''billing_cycle'' = Some (JStr ''yearly'')"
    by simp_all
  have p: "map_of (PRICE_IDS example_externals) ''professional_yearly'' = Some None"
    by (simp add: PRICE_IDS_def example_externals_def example_getenv_def)
  have e: "\<not> (\<exists>price. price \<noteq> [] \<and>
              map_of (PRICE_IDS example_externals)
                (py_str example_externals (JStr ''professional'') @ ''_'' @
                 py_str example_externals (JStr ''yearly'')) = Some (Some price))"
    using p by (simp add: py_str_def)
  show ?thesis
    using create_subscription_invalid_plan [OF a b c d e, of empty_state] a p
    by (simp add: py_str_def signup_body_def)
qed

text \<open>
  Claim C8, as stated, fails on the message: for the plan \<^verbatim>\<open>starter\<close> with the billing
  cycle \<^verbatim>\<open>weekly\<close> the message is \<^verbatim>\<open>Invalid plan or billing cycle: starter_weekly\<close>, not
  \<^verbatim>\<open>Invalid plan or billing cycle\<close>.
\<close>

theorem create_subscription_invalid_plan_counterexample:
  "fst (create_subscription example_externals
          (json_request (Inr (signup_body ''starter'' ''weekly''))) empty_state)
     = Inr (Json (JObj [(''error'', JStr ''Invalid plan or billing cycle: starter_weekly'')]), 400) \<and>
   fst (create_subscription example_externals
          (json_request (Inr (signup_body ''starter'' ''weekly''))) empty_state)
     \<noteq> Inr (Json (JObj [(''error'', JStr ''Invalid plan or billing cycle'')]), 400)"
  by (simp add: create_subscription_def create_subscription_try_def required_fields_def PRICE_IDS_def
      py_str_def jsonify_def run_defs example_defs)

text \<open>
  Claim C6. Whatever the body of the \<^verbatim>\<open>try\<close> of \<^verbatim>\<open>create_subscription\<close> raises, the
  view returns a response, whose status follows the class of the exception: a card error
  400, a rate limit 429, an invalid request 400, an authentication error 401, a
  connection error 503, any other error of the provider 400, and anything else 500 with
  the fixed message \<^verbatim>\<open>An unexpected error occurred. Please try again.\<close>
\<close>

theorem create_subscription_error_status:
  assumes "fst (create_subscription_try x req s) = Inl e"
  shows "(\<forall>m u. e = CardError m u \<longrightarrow>
            fst (create_subscription x req s) =
              Inr (Json (JObj [(''error'', JStr (''Card error: '' @
                     (case u of None \<Rightarrow> ''None'' | Some v \<Rightarrow> v)))]), 400)) \<and>
         (\<forall>m. e = RateLimitError m \<longrightarrow>
            fst (create_subscription x req s) =
              Inr (Json (JObj [(''error'', JStr ''Too many requests. Please try again later.'')]), 429)) \<and>
         (\<forall>m. e = InvalidRequestError m \<longrightarrow>
            fst (create_subscription x req s) =
              Inr (Json (JObj [(''error'', JStr (''Invalid request: '' @ m))]), 400)) \<and>
         (\<forall>m. e = AuthenticationError m \<longrightarrow>
            fst (create_subscription x req s) =
              Inr (Json (JObj [(''error'', JStr ''Authentication failed. Please contact support.'')]), 401)) \<and>
         (\<forall>m. e = APIConnectionError m \<longrightarrow>
            fst (create_subscription x req s) =
              Inr (Json (JObj [(''error'', JStr ''Network error. Please try again.'')]), 503)) \<and>
         (\<forall>m. e = OtherStripeError m \<or> e = SignatureVerificationError m \<longrightarrow>
            fst (create_subscription x req s) =
              Inr (Json (JObj [(''error'', JStr (''Payment processing error: '' @ m))]), 400)) \<and>
         (\<forall>m. e = ValueError m \<or> e = KeyError m \<or> e = TypeError m \<or> e = AttributeError m \<or>
               e = IndexError m \<or> e = OtherException m \<longrightarrow>
            fst (create_subscription x req s) =
              Inr (Json (JObj [(''error'', JStr ''An unexpected error occurred. Please try again.'')]), 500))"
proof -
  obtain s' where "create_subscription_try x req s = (Inl e, s')"
    using assms by (cases "create_subscription_try x req s") simp
  then have "create_subscription x req s = create_subscription_except e s'"
    by (rule create_subscription_raises)
  then show ?thesis
    by (cases e) (simp_all add: run_defs jsonify_def)
qed

theorem create_subscription_error_status_witness:
  "fst (create_subscription_try
          (example_externals\<lparr>Customer_create :=
             (\<lambda>args. Inl (CardError ''Request req_1: Your card was declined.''
                                     (Some ''Your card was declined.'')))\<rparr>)
          (json_request (Inr (signup_body ''starter'' ''monthly''))) empty_state)
     = Inl (CardError ''Request req_1: Your card was declined.'' (Some ''Your card was declined.'')) \<and>
   fst (create_subscription
          (example_externals\<lparr>Customer_create :=
             (\<lambda>args. Inl (CardError ''Request req_1: Your card was declined.''
                                     (Some ''Your card was declined.'')))\<rparr>)
          (json_request (Inr (signup_body ''starter'' ''monthly''))) empty_state)
     = Inr (Json (JObj [(''error'', JStr ''Card error: Your card was declined.'')]), 400) \<and>
   fst (create_subscription_try
          (example_externals\<lparr>Subscription_create :=
             (\<lambda>args. Inl (APIConnectionError ''Connection reset''))\<rparr>)
          (json_request (Inr (signup_body ''starter'' ''monthly''))) empty_state)
     = Inl (APIConnectionError ''Connection reset'') \<and>
   fst (create_subscription
          (example_externals\<lparr>Subscription_create :=
             (\<lambda>args. Inl (APIConnectionError ''Connection reset''))\<rparr>)
          (json_request (Inr (signup_body ''starter'' ''monthly''))) empty_state)
     = Inr (Json (JObj [(''error'', JStr ''Network error. Please try again.'')]), 503)"
proof -
  let ?x1 = "example_externals\<lparr>Customer_create :=
             (\<lambda>args. Inl (CardError ''Request req_1: Your card was declined.''
                                     (Some ''Your card was declined.'')))\<rparr>"
  let ?x2 = "example_externals\<lparr>Subscription_create :=
             (\<lambda>args. Inl (APIConnectionError ''Connection reset''))\<rparr>"
  let ?req = "json_request (Inr (signup_body ''starter'' ''monthly''))"
  have a: "fst (create_subscription_try ?x1 ?req empty_state)
     = Inl (CardError ''Request req_1: Your card was declined.'' (Some ''Your card was declined.''))"
    by (simp add: create_subscription_try_def required_fields_def PRICE_IDS_def py_str_def
        run_defs example_defs)
  have b: "fst (create_subscription_try ?x2 ?req empty_state) = Inl (APIConnectionError ''Connection reset'')"
    by (simp add: create_subscription_try_def required_fields_def PRICE_IDS_def py_str_def
        run_defs example_defs)
  show ?thesis
    using create_subscription_error_status [OF a] create_subscription_error_status [OF b] a b
    by simp
qed

text \<open>
  Claim C10, as the code has it. When \<^verbatim>\<open>request.get_json()\<close> raises (no JSON body) or
  returns \<^verbatim>\<open>None\<close>, a boolean or a number, the view answers with the generic 500 and
  makes no provider call: the membership test raises \<open>TypeError\<close>, which
  \<^verbatim>\<open>except Exception\<close> catches. When the body is a JSON string or a JSON array the
  membership test does not raise: it is the substring test, or the test for an element.
  The view then answers with the field-level 400 for the first required field that the
  body does not contain, and with the generic 500 only when it contains all five (the
  subscript \<^verbatim>\<open>data['plan']\<close> raises \<open>TypeError\<close>).
\<close>

theorem create_subscription_non_object_body:
  "(get_json req = Inl (OtherException m) \<or> get_json req = Inr JNull \<or>
    get_json req = Inr (JBool b) \<or> get_json req = Inr (JInt i) \<or> get_json req = Inr (JFloat r) \<longrightarrow>
      fst (create_subscription x req s) = Inr generic_error \<and>
      provider_calls (snd (create_subscription x req s)) = provider_calls s) \<and>
   (get_json req = Inr (JStr str) \<longrightarrow>
      fst (create_subscription x req s) =
        Inr (case filter (\<lambda>f. \<not> is_substring f str) required_fields of
               [] \<Rightarrow> generic_error | f # others \<Rightarrow> missing_field_error f) \<and>
      provider_calls (snd (create_subscription x req s)) = provider_calls s) \<and>
   (get_json req = Inr (JArr xs) \<longrightarrow>
      fst (create_subscription x req s) =
        Inr (case filter (\<lambda>f. JStr f \<notin> set xs) required_fields of
               [] \<Rightarrow> generic_error | f # others \<Rightarrow> missing_field_error f) \<and>
      provider_calls (snd (create_subscription x req s)) = provider_calls s)"
proof (intro conjI impI)
  assume "get_json req = Inl (OtherException m) \<or> get_json req = Inr JNull \<or>
    get_json req = Inr (JBool b) \<or> get_json req = Inr (JInt i) \<or> get_json req = Inr (JFloat r)"
  then have "create_subscription x req s =
      (Inr generic_error,
       s\<lparr>logged := logged s @ [Error (''Unexpected error: '' @
            (case get_json req of Inl e \<Rightarrow> str_exn e
             | Inr v \<Rightarrow> ''argument of type '' @ quoted (type_name v) @ '' is not iterable''))]\<rparr>)"
    by (auto simp: create_subscription_def create_subscription_try_def required_fields_def
        run_defs jsonify_def generic_error_def)
  then show "fst (create_subscription x req s) = Inr generic_error"
    and "provider_calls (snd (create_subscription x req s)) = provider_calls s"
    by simp_all
next
  assume a: "get_json req = Inr (JStr str)"
  show "fst (create_subscription x req s) =
        Inr (case filter (\<lambda>f. \<not> is_substring f str) required_fields of
               [] \<Rightarrow> generic_error | f # others \<Rightarrow> missing_field_error f)"
    and "provider_calls (snd (create_subscription x req s)) = provider_calls s"
    using a
    by (simp_all add: create_subscription_def create_subscription_try_def first_missing_string
        run_defs jsonify_def generic_error_def missing_field_error_def split: list.splits)
next
  assume a: "get_json req = Inr (JArr xs)"
  show "fst (create_subscription x req s) =
        Inr (case filter (\<lambda>f. JStr f \<notin> set xs) required_fields of
               [] \<Rightarrow> generic_error | f # others \<Rightarrow> missing_field_error f)"
    and "provider_calls (snd (create_subscription x req s)) = provider_calls s"
    using a
    by (simp_all add: create_subscription_def create_subscription_try_def first_missing_array
        run_defs jsonify_def generic_error_def missing_field_error_def split: list.splits)
qed

theorem create_subscription_non_object_body_witness:
  "get_json (json_request (Inr JNull)) = Inr JNull \<and>
   fst (create_subscription example_externals (json_request (Inr JNull)) empty_state)
     = Inr (Json (JObj [(''error'', JStr ''An unexpected error occurred. Please try again.'')]), 500) \<and>
   get_json (json_request (Inr (JArr (map JStr required_fields))))
     = Inr (JArr (map JStr required_fields)) \<and>
   fst (create_subscription example_externals
          (json_request (Inr (JArr (map JStr required_fields)))) empty_state)
     = Inr (Json (JObj [(''error'', JStr ''An unexpected error occurred. Please try again.'')]), 500) \<and>
   get_json (json_request (Inr (JStr ''email, name''))) = Inr (JStr ''email, name'') \<and>
   fst (create_subscription example_externals (json_request (Inr (JStr ''email, name''))) empty_state)
     = Inr (Json (JObj [(''error'', JStr ''Missing required field: plan'')]), 400)"
proof -
  have a: "get_json (json_request (Inr v)) = Inr v" for v
    by (simp add: json_request_def)
  have n: "get_json (json_request (Inr JNull)) = Inl (OtherException []) \<or>
      get_json (json_request (Inr JNull)) = Inr JNull \<or>
      get_json (json_request (Inr JNull)) = Inr (JBool False) \<or>
      get_json (json_request (Inr JNull)) = Inr (JInt 0) \<or>
      get_json (json_request (Inr JNull)) = Inr (JFloat 0)"
    by (simp add: a)
  have f1: "filter (\<lambda>f. JStr f \<notin> set (map JStr required_fields)) required_fields = []"
    by (simp add: required_fields_def)
  have f2: "filter (\<lambda>f. \<not> is_substring f ''email, name'') required_fields
      = [''plan'', ''billing_cycle'', ''payment_method_id'']"
    by (simp add: required_fields_def)
  show ?thesis
    using create_subscription_non_object_body [of "json_request (Inr JNull)" "[]" False 0 0
        example_externals empty_state "[]" "[]"]
      create_subscription_non_object_body [of "json_request (Inr (JArr (map JStr required_fields)))"
        "[]" False 0 0 example_externals empty_state "[]" "map JStr required_fields"]
      create_subscription_non_object_body [of "json_request (Inr (JStr ''email, name''))"
        "[]" False 0 0 example_externals empty_state "''email, name''" "[]"]
      n f1 f2
    by (simp add: a generic_error_def missing_field_error_def)
qed

text \<open>
  Claim C10, as stated, fails: a body that is the JSON string \<^verbatim>\<open>"hello"\<close> is valid JSON
  and not an object, and the view answers it with the field-level 400 for \<^verbatim>\<open>email\<close>;
  so it does with the empty JSON array.
\<close>

theorem create_subscription_non_object_body_counterexample:
  "fst (create_subscription example_externals (json_request (Inr (JStr ''hello''))) empty_state)
     = Inr (Json (JObj [(''error'', JStr ''Missing required field: email'')]), 400) \<and>
   fst (create_subscription example_externals (json_request (Inr (JArr []))) empty_state)
     = Inr (Json (JObj [(''error'', JStr ''Missing required field: email'')]), 400)"
  by (simp add: create_subscription_def create_subscription_try_def required_fields_def
      run_defs jsonify_def json_request_def)

section \<open>Subscription status: claims\<close>



end
